theory Spec2Isabelle
  imports Complex_Main "HOL-Library.Word"
begin

section \<open>Values\<close>

text \<open>
  The backend is a Node.js program (\<^verbatim>\<open>src/unnamed/part_001\<close>). A JavaScript number is
  modelled as a rational: the byte rate \<^verbatim>\<open>sampleRate * channels * (bits / 8)\<close> need not be
  an integer. \<^verbatim>\<open>NaN\<close> and the infinities are left out. A byte is an 8-bit word.
\<close>

type_synonym number = rat
type_synonym byte = "8 word"

text \<open>What \<^verbatim>\<open>req.body.fileId\<close> can be after \<^verbatim>\<open>express.json()\<close> has parsed the body.\<close>

datatype jsval = JUndefined | JNull | JBool bool | JNum number | JStr string | JObject

text \<open>JavaScript truthiness, as \<^verbatim>\<open>!fileId\<close> and \<^verbatim>\<open>x || y\<close> use it.\<close>

fun truthy :: "jsval \<Rightarrow> bool" where
  "truthy JUndefined = False"
| "truthy JNull = False"
| "truthy (JBool b) = b"
| "truthy (JNum n) = (n \<noteq> 0)"
| "truthy (JStr s) = (s \<noteq> [])"
| "truthy JObject = True"

text \<open>A numeric property that may be missing: \<open>None\<close> is \<^verbatim>\<open>undefined\<close> or \<^verbatim>\<open>null\<close>.\<close>

definition num_truthy :: "number option \<Rightarrow> bool" where
  "num_truthy v = (case v of None \<Rightarrow> False | Some x \<Rightarrow> x \<noteq> 0)"

text \<open>\<^verbatim>\<open>v || d\<close> for a numeric \<open>v\<close> that may be missing.\<close>

definition or_num :: "number option \<Rightarrow> number \<Rightarrow> number" where
  "or_num v d = (case v of None \<Rightarrow> d | Some x \<Rightarrow> if x \<noteq> 0 then x else d)"

section \<open>The WAV inspector\<close>

text \<open>
  What the library \<^verbatim>\<open>wav-file-info\<close> hands to the callback of \<^verbatim>\<open>infoByFilename\<close>:
  the fields \<^verbatim>\<open>inspectWav\<close> reads (lines 78 to 81).
\<close>

record wav_header =
  sample_rate :: "number option"
  bits_per_sample :: "number option"
  channels_hdr :: "number option"
  length_hdr :: "number option"

record info =
  info_sampleRate :: "number option"
  info_bits :: number
  info_channels :: number
  info_duration :: "number option"
  info_byteRate :: "number option"

text \<open>
  \<^verbatim>\<open>inspectWav\<close> (lines 74 to 86). The argument is the library's outcome for the file:
  \<open>None\<close> when it reports an error (the promise is rejected), the header otherwise.
\<close>

definition inspectWav :: "wav_header option \<Rightarrow> info option" where
  "inspectWav r =
     (case r of
        None \<Rightarrow> None
      | Some h \<Rightarrow>
          let sampleRate = (if num_truthy (sample_rate h) then sample_rate h else None);
              bits = (if num_truthy (bits_per_sample h) then the (bits_per_sample h) else 16);
              channels = (if num_truthy (channels_hdr h) then the (channels_hdr h) else 1);
              duration = (if num_truthy (length_hdr h) then length_hdr h else None);
              byteRate = (if num_truthy sampleRate \<and> bits \<noteq> 0
                          then Some (the sampleRate * channels * (bits / 8)) else None)
          in Some \<lparr>info_sampleRate = sampleRate, info_bits = bits, info_channels = channels,
                   info_duration = duration, info_byteRate = byteRate\<rparr>)"

section \<open>The server's state\<close>

text \<open>The object \<^verbatim>\<open>STATE\<close> (lines 55 to 61).\<close>

record session =
  playing :: bool
  currentFile :: "string option"
  bytesSent :: nat
  durationSec :: number
  byteRate :: number

text \<open>
  A \<^verbatim>\<open>net.Socket\<close>. \<^verbatim>\<open>end()\<close> half-closes it: the FIN is queued, and the socket lives on
  until the peer closes or \<^verbatim>\<open>destroy()\<close> is called. \<open>written\<close> holds the bytes of the
  writes that have completed, which the sink receives. \<open>queued\<close> holds the bytes handed to
  \<^verbatim>\<open>write\<close> whose write has not completed; \<^verbatim>\<open>destroy()\<close> discards them. \<open>stalled\<close>
  says that the sink is not taking bytes for now, so that a write cannot complete.
\<close>

record socket =
  sock_connected :: bool
  ended :: bool
  destroyed :: bool
  written :: "byte list"
  queued :: "byte list"
  stalled :: bool

text \<open>
  An \<^verbatim>\<open>fs.ReadStream\<close>: the file it reads, the offset of its next read, and the socket
  it is piped into (\<open>None\<close> when there is no pipe). \<open>rbuf\<close> holds the chunks read from the
  file and not yet emitted as \<^verbatim>\<open>'data'\<close>. \<open>rawait\<close> says that the pipe has paused the
  stream and awaits the \<^verbatim>\<open>'drain'\<close> of its destination.
\<close>

record rstream =
  rpath :: string
  rpos :: nat
  rdest :: "nat option"
  rdestroyed :: bool
  rbuf :: "byte list list"
  rawait :: bool

text \<open>Messages of the WebSocket channel; \<open>Status\<close> has no \<^verbatim>\<open>currentFile\<close> property.\<close>

datatype ws_msg =
    FilesUpdated
  | Welcome
  | Status bool
  | StatusFile bool "string option"

datatype response = Ok | Error nat string

text \<open>
  The module's variables: \<^verbatim>\<open>STATE\<close>, \<^verbatim>\<open>activeSocket\<close>, \<^verbatim>\<open>activeReadStream\<close>; the sockets
  and read streams created so far (an object is its index); and the messages broadcast.
\<close>

record server =
  STATE :: session
  activeSocket :: "nat option"
  activeReadStream :: "nat option"
  sockets :: "socket list"
  streams :: "rstream list"
  sent :: "ws_msg list"

definition STATE_init :: session where
  "STATE_init = \<lparr>playing = False, currentFile = None, bytesSent = 0, durationSec = 0, byteRate = 0\<rparr>"

definition server_init :: server where
  "server_init = \<lparr>STATE = STATE_init, activeSocket = None, activeReadStream = None,
                   sockets = [], streams = [], sent = []\<rparr>"

section \<open>Operations on sockets and streams\<close>

definition broadcast :: "ws_msg \<Rightarrow> server \<Rightarrow> server" where
  "broadcast msg srv = srv\<lparr>sent := sent srv @ [msg]\<rparr>"

definition socket_end :: "nat \<Rightarrow> server \<Rightarrow> server" where
  "socket_end i srv =
     (if i < length (sockets srv)
      then srv\<lparr>sockets := (sockets srv)[i := (sockets srv ! i)\<lparr>ended := True\<rparr>]\<rparr>
      else srv)"

text \<open>\<^verbatim>\<open>socket.destroy()\<close>: no more I/O on the socket; what is queued is never sent.\<close>

definition socket_destroy :: "nat \<Rightarrow> server \<Rightarrow> server" where
  "socket_destroy i srv =
     (if i < length (sockets srv)
      then srv\<lparr>sockets := (sockets srv)[i := (sockets srv ! i)\<lparr>destroyed := True, queued := []\<rparr>]\<rparr>
      else srv)"

definition stream_destroy :: "nat \<Rightarrow> server \<Rightarrow> server" where
  "stream_destroy i srv =
     (if i < length (streams srv)
      then srv\<lparr>streams := (streams srv)[i := (streams srv ! i)\<lparr>rdestroyed := True\<rparr>]\<rparr>
      else srv)"

text \<open>
  \<^verbatim>\<open>socket.write(chunk)\<close>, as the pipe calls it, with the value it returns. On a socket
  that is connected and neither ended nor destroyed: while the sink takes bytes, the write
  completes before anything else happens, the bytes are sent, and the pipe goes on
  (\<open>True\<close>); while the sink is stalled, the bytes are queued in the socket and
  \<^verbatim>\<open>write\<close> returns \<^verbatim>\<open>false\<close>. On any other socket nothing is sent.
\<close>

definition socket_write :: "nat \<Rightarrow> byte list \<Rightarrow> server \<Rightarrow> bool \<times> server" where
  "socket_write i chunk srv =
     (if i < length (sockets srv) \<and> sock_connected (sockets srv ! i)
         \<and> \<not> ended (sockets srv ! i) \<and> \<not> destroyed (sockets srv ! i)
      then
        (if stalled (sockets srv ! i)
         then (False, srv\<lparr>sockets := (sockets srv)[i := (sockets srv ! i)
                               \<lparr>queued := queued (sockets srv ! i) @ chunk\<rparr>]\<rparr>)
         else (True, srv\<lparr>sockets := (sockets srv)[i := (sockets srv ! i)
                               \<lparr>written := written (sockets srv ! i) @ chunk\<rparr>]\<rparr>))
      else (True, srv))"

text \<open>\<^verbatim>\<open>cleanupStream\<close> (lines 214 to 220).\<close>

definition cleanupStream :: "bool \<Rightarrow> server \<Rightarrow> server" where
  "cleanupStream resetBytes srv =
     (let srv1 = (case activeReadStream srv of None \<Rightarrow> srv | Some r \<Rightarrow> stream_destroy r srv);
          srv2 = (case activeSocket srv1 of None \<Rightarrow> srv1 | Some k \<Rightarrow> socket_destroy k srv1);
          srv3 = srv2\<lparr>activeReadStream := None, activeSocket := None\<rparr>
      in if resetBytes then srv3\<lparr>STATE := (STATE srv3)\<lparr>bytesSent := 0\<rparr>\<rparr> else srv3)"

section \<open>The handlers\<close>

text \<open>
  The environment of a request: \<open>files\<close> maps a file id to the bytes of the file of that
  name in the upload directory (\<open>None\<close> when \<^verbatim>\<open>fs.existsSync\<close> is false), \<open>wav\<close> is the
  outcome of the WAV library for it.
\<close>

type_synonym filesystem = "string \<Rightarrow> byte list option"
type_synonym wavlib = "string \<Rightarrow> wav_header option"

text \<open>
  \<^verbatim>\<open>POST /api/play\<close>, lines 129 to 166: everything up to the call of
  \<^verbatim>\<open>activeSocket.connect\<close>, which registers the callback and returns. \<open>Inl r\<close>: the
  handler has answered with the error \<open>r\<close>. \<open>Inr (k, f)\<close>: no answer yet; socket \<open>k\<close> is
  connecting and its callback holds the file \<open>f\<close>. \<^verbatim>\<open>path.join\<close> throws a TypeError on a
  value that is not a string, which the handler catches (line 194). The handler awaits the
  inspector at line 137; here it runs from line 131 to line 166 as one step.
\<close>

definition play_request ::
  "jsval \<Rightarrow> filesystem \<Rightarrow> wavlib \<Rightarrow> server \<Rightarrow> (response + nat \<times> string) \<times> server" where
  "play_request fileId fs wl srv =
     (if \<not> truthy fileId then (Inl (Error 400 ''fileId required''), srv)
      else case fileId of
        JStr f \<Rightarrow>
          (if fs f = None then (Inl (Error 404 ''file not found''), srv)
           else
             let i = inspectWav (wl f);
                 st = STATE srv;
                 st1 = st\<lparr>durationSec := or_num (case i of None \<Rightarrow> None | Some x \<Rightarrow> info_duration x)
                                                   (durationSec st)\<rparr>;
                 st2 = st1\<lparr>byteRate := or_num (case i of None \<Rightarrow> None | Some x \<Rightarrow> info_byteRate x)
                                                 (byteRate st1)\<rparr>;
                 st3 = st2\<lparr>currentFile := Some f\<rparr>;
                 srv1 = srv\<lparr>STATE := st3\<rparr>;
                 srv2 = (case activeSocket srv1 of
                           None \<Rightarrow> srv1
                         | Some k \<Rightarrow> (socket_end k srv1)\<lparr>activeSocket := None\<rparr>);
                 srv3 = (case activeReadStream srv2 of
                           None \<Rightarrow> srv2
                         | Some r \<Rightarrow> (stream_destroy r srv2)\<lparr>activeReadStream := None\<rparr>);
                 k = length (sockets srv3);
                 srv4 = srv3\<lparr>sockets := sockets srv3 @
                                 [\<lparr>sock_connected = False, ended = False, destroyed = False,
                                    written = [], queued = [], stalled = False\<rparr>],
                             activeSocket := Some k\<rparr>
             in (Inr (k, f), srv4))
      | _ \<Rightarrow> (Inl (Error 500 ''failed to play''), srv))"

text \<open>
  The callback given to \<^verbatim>\<open>activeSocket.connect\<close>, lines 167 to 192, for the file \<open>f\<close> of
  its request. The pipe's destination is the module variable \<^verbatim>\<open>activeSocket\<close> as it is
  when the callback runs; were it \<^verbatim>\<open>null\<close>, \<^verbatim>\<open>pipe\<close> would throw after the stream has
  been created, and nothing of lines 189 to 191 would run (\<open>None\<close>: no answer).
\<close>

definition connect_callback :: "string \<Rightarrow> server \<Rightarrow> response option \<times> server" where
  "connect_callback f srv =
     (let start = (if bytesSent (STATE srv) > 0 then bytesSent (STATE srv) else 0);
          r = length (streams srv);
          srv1 = srv\<lparr>streams := streams srv @
                          [\<lparr>rpath = f, rpos = start, rdest = activeSocket srv, rdestroyed = False,
                             rbuf = [], rawait = False\<rparr>],
                      activeReadStream := Some r\<rparr>
      in case activeSocket srv of
           None \<Rightarrow> (None, srv1)
         | Some k \<Rightarrow>
             let srv2 = srv1\<lparr>STATE := (STATE srv1)\<lparr>playing := True\<rparr>\<rparr>;
                 srv3 = broadcast (StatusFile True (currentFile (STATE srv2))) srv2
             in (Some Ok, srv3))"

text \<open>The \<^verbatim>\<open>'error'\<close> and \<^verbatim>\<open>'close'\<close> listeners of a socket, lines 156 to 165.\<close>

definition on_socket_error :: "server \<Rightarrow> server" where
  "on_socket_error srv = broadcast (Status False) (cleanupStream False srv)"

definition on_socket_close :: "server \<Rightarrow> server" where
  "on_socket_close srv = broadcast (Status False) (cleanupStream False srv)"

text \<open>The listeners of a read stream: \<^verbatim>\<open>'data'\<close> (line 172), \<^verbatim>\<open>'end'\<close> (line 175),
  \<^verbatim>\<open>'error'\<close> (line 182).\<close>

definition on_data :: "byte list \<Rightarrow> server \<Rightarrow> server" where
  "on_data chunk srv = srv\<lparr>STATE := (STATE srv)\<lparr>bytesSent := bytesSent (STATE srv) + length chunk\<rparr>\<rparr>"

definition on_end :: "server \<Rightarrow> server" where
  "on_end srv =
     (let srv1 = srv\<lparr>STATE := (STATE srv)\<lparr>playing := False\<rparr>\<rparr>;
          srv2 = srv1\<lparr>STATE := (STATE srv1)\<lparr>bytesSent := 0\<rparr>\<rparr>
      in broadcast (Status False) (cleanupStream False srv2))"

definition on_read_error :: "server \<Rightarrow> server" where
  "on_read_error srv = broadcast (Status False) (cleanupStream False srv)"

text \<open>\<^verbatim>\<open>POST /api/pause\<close>, lines 201 to 212. Neither \<^verbatim>\<open>destroy\<close> nor \<^verbatim>\<open>end\<close> throws, so
  the \<^verbatim>\<open>catch\<close> of line 209 is never entered.\<close>

definition pause :: "server \<Rightarrow> response \<times> server" where
  "pause srv =
     (let srv1 = (case activeReadStream srv of None \<Rightarrow> srv | Some r \<Rightarrow> stream_destroy r srv);
          srv2 = (case activeSocket srv1 of None \<Rightarrow> srv1 | Some k \<Rightarrow> socket_end k srv1);
          srv3 = cleanupStream False srv2;
          srv4 = srv3\<lparr>STATE := (STATE srv3)\<lparr>playing := False\<rparr>\<rparr>
      in (Ok, broadcast (Status False) srv4))"

text \<open>\<^verbatim>\<open>GET /api/stream-status\<close>, lines 223 to 230.\<close>

record status =
  playing_out :: bool
  currentFileId :: "string option"
  position :: int
  duration_out :: number

definition stream_status :: "server \<Rightarrow> status" where
  "stream_status srv =
     \<lparr>playing_out = playing (STATE srv),
      currentFileId = currentFile (STATE srv),
      position = (if byteRate (STATE srv) \<noteq> 0
                  then \<lfloor>of_nat (bytesSent (STATE srv)) / byteRate (STATE srv)\<rfloor> else 0),
      duration_out = or_num (Some (durationSec (STATE srv))) 0\<rparr>"

text \<open>What a new WebSocket client is sent, lines 233 to 236.\<close>

definition ws_connection :: "server \<Rightarrow> ws_msg list" where
  "ws_connection srv = [Welcome, StatusFile (playing (STATE srv)) (currentFile (STATE srv))]"

section \<open>Events of the runtime\<close>

text \<open>
  Node emits the events; the listeners above are what the program does at each. Socket
  \<open>k\<close> connects: it is marked connected and its callback runs.
\<close>

definition socket_connected :: "nat \<Rightarrow> string \<Rightarrow> server \<Rightarrow> response option \<times> server" where
  "socket_connected k f srv =
     (if k < length (sockets srv) \<and> \<not> destroyed (sockets srv ! k)
      then connect_callback f
             (srv\<lparr>sockets := (sockets srv)[k := (sockets srv ! k)\<lparr>sock_connected := True\<rparr>]\<rparr>)
      else (None, srv))"

text \<open>The connection of socket \<open>k\<close> fails: Node destroys the socket and emits \<^verbatim>\<open>'error'\<close>,
  then \<^verbatim>\<open>'close'\<close>. The connect callback never runs.\<close>

definition connect_failed :: "nat \<Rightarrow> server \<Rightarrow> server" where
  "connect_failed k srv = on_socket_close (on_socket_error (socket_destroy k srv))"

text \<open>
  What \<^verbatim>\<open>pipe\<close> does when its destination \<open>k\<close> emits \<^verbatim>\<open>'close'\<close>: it removes its own
  listeners from the source (the source is no longer piped), and where it was awaiting
  \<^verbatim>\<open>'drain'\<close> it resumes the source, since the listener of line 172 is still attached.
\<close>

definition pipe_onclose :: "nat \<Rightarrow> server \<Rightarrow> server" where
  "pipe_onclose k srv =
     srv\<lparr>streams := map (\<lambda>s. if rdest s = Some k then s\<lparr>rdest := None, rawait := False\<rparr> else s)
                        (streams srv)\<rparr>"

text \<open>
  Socket \<open>k\<close> is closed (the peer closed it, or it had been destroyed): \<^verbatim>\<open>'close'\<close>. The
  listener of line 161 runs, then the pipe's.
\<close>

definition socket_closed :: "nat \<Rightarrow> server \<Rightarrow> server" where
  "socket_closed k srv = pipe_onclose k (on_socket_close (socket_destroy k srv))"

text \<open>The sink stops taking bytes from socket \<open>k\<close>.\<close>

definition sink_stalls :: "nat \<Rightarrow> server \<Rightarrow> server" where
  "sink_stalls k srv =
     (if k < length (sockets srv) \<and> \<not> destroyed (sockets srv ! k)
      then srv\<lparr>sockets := (sockets srv)[k := (sockets srv ! k)\<lparr>stalled := True\<rparr>]\<rparr>
      else srv)"

text \<open>
  The sink takes bytes again and the queued writes of socket \<open>k\<close> complete: the socket
  emits \<^verbatim>\<open>'drain'\<close>, and the pipes that await it resume their sources.
\<close>

definition socket_drained :: "nat \<Rightarrow> server \<Rightarrow> server" where
  "socket_drained k srv =
     (if k < length (sockets srv) \<and> \<not> destroyed (sockets srv ! k)
      then
        let s = sockets srv ! k;
            srv1 = srv\<lparr>sockets := (sockets srv)[k := s\<lparr>written := written s @ queued s,
                                                        queued := [], stalled := False\<rparr>]\<rparr>
        in srv1\<lparr>streams := map (\<lambda>x. if rdest x = Some k then x\<lparr>rawait := False\<rparr> else x)
                                (streams srv1)\<rparr>
      else srv)"

text \<open>
  Stream \<open>r\<close> emits \<^verbatim>\<open>'data'\<close> with a chunk: the listener of line 172 counts it, then,
  while the stream is piped, the pipe writes it to the destination, and pauses the stream
  to await \<^verbatim>\<open>'drain'\<close> when \<^verbatim>\<open>write\<close> returns \<^verbatim>\<open>false\<close>.
\<close>

definition emit_data :: "nat \<Rightarrow> byte list \<Rightarrow> server \<Rightarrow> server" where
  "emit_data r chunk srv =
     (let srv1 = on_data chunk srv in
      case rdest (streams srv1 ! r) of
        None \<Rightarrow> srv1
      | Some k \<Rightarrow>
          (case socket_write k chunk srv1 of
             (True, srv2) \<Rightarrow> srv2
           | (False, srv2) \<Rightarrow>
               srv2\<lparr>streams := (streams srv2)[r := (streams srv2 ! r)\<lparr>rawait := True\<rparr>]\<rparr>))"

text \<open>
  One read of stream \<open>r\<close>, with chunks of at most \<open>hwm\<close> bytes (the stream's
  \<^verbatim>\<open>highWaterMark\<close>). A destroyed stream reads no more. A file that cannot be read gives
  \<^verbatim>\<open>'error'\<close>. While the stream flows and has nothing buffered, the chunk is emitted at
  once (\<^verbatim>\<open>'data'\<close>), and at or beyond the end of the file the stream emits \<^verbatim>\<open>'end'\<close> and
  is destroyed (\<^verbatim>\<open>autoDestroy\<close>). While the pipe has paused the stream, or chunks are
  still buffered, the chunk is only added to the buffer, as long as the buffer holds less
  than \<open>hwm\<close> bytes; \<^verbatim>\<open>'end'\<close> then waits for a read after the buffer has been emitted.
\<close>

definition stream_read :: "nat \<Rightarrow> filesystem \<Rightarrow> nat \<Rightarrow> server \<Rightarrow> server" where
  "stream_read hwm fs r srv =
     (if r < length (streams srv) \<and> \<not> rdestroyed (streams srv ! r)
      then
        let s = streams srv ! r in
        case fs (rpath s) of
          None \<Rightarrow> stream_destroy r (on_read_error srv)
        | Some c \<Rightarrow>
            let chunk = take hwm (drop (rpos s) c) in
            if rawait s \<or> rbuf s \<noteq> []
            then
              (if chunk \<noteq> [] \<and> length (concat (rbuf s)) < hwm
               then srv\<lparr>streams := (streams srv)[r := s\<lparr>rpos := rpos s + length chunk,
                                                         rbuf := rbuf s @ [chunk]\<rparr>]\<rparr>
               else srv)
            else if chunk = [] then stream_destroy r (on_end srv)
            else emit_data r chunk
                   (srv\<lparr>streams := (streams srv)[r := s\<lparr>rpos := rpos s + length chunk\<rparr>]\<rparr>)
      else srv)"

text \<open>
  A stream that is not paused emits the next chunk of its buffer. \<^verbatim>\<open>destroy()\<close> ends the
  reads of a stream, but a chunk it has buffered is still emitted when the pipe resumes
  the stream, before the stream's own \<^verbatim>\<open>'close'\<close>.
\<close>

definition stream_flow :: "nat \<Rightarrow> server \<Rightarrow> server" where
  "stream_flow r srv =
     (if r < length (streams srv) \<and> \<not> rawait (streams srv ! r)
      then
        (case rbuf (streams srv ! r) of
           [] \<Rightarrow> srv
         | chunk # rest \<Rightarrow>
             emit_data r chunk
               (srv\<lparr>streams := (streams srv)[r := (streams srv ! r)\<lparr>rbuf := rest\<rparr>]\<rparr>))
      else srv)"

text \<open>
  A play request whose connection attempt is settled before anything else happens:
  \<open>accepts\<close> says whether the sink accepts the connection. On failure no answer is ever
  sent (\<open>None\<close>): neither listener of the socket touches \<^verbatim>\<open>res\<close>.
\<close>

definition play :: "jsval \<Rightarrow> filesystem \<Rightarrow> wavlib \<Rightarrow> bool \<Rightarrow> server \<Rightarrow> response option \<times> server" where
  "play fileId fs wl accepts srv =
     (case play_request fileId fs wl srv of
        (Inl e, srv1) \<Rightarrow> (Some e, srv1)
      | (Inr (k, f), srv1) \<Rightarrow>
          if accepts then socket_connected k f srv1 else (None, connect_failed k srv1))"

section \<open>Reading a message, and a small library for the examples\<close>

text \<open>The file a broadcast message names, if it names one.\<close>

definition msg_file :: "ws_msg \<Rightarrow> string option" where
  "msg_file m = (case m of StatusFile p f \<Rightarrow> f | _ \<Rightarrow> None)"

text \<open>Three uploaded files, of 6, 8 and 0 bytes; the WAV library reads only the first.\<close>

definition example_files :: filesystem where
  "example_files =
     (\<lambda>f. if f = ''a.wav'' then Some [1, 2, 3, 4, 5, 6]
          else if f = ''b.wav'' then Some [7, 8, 9, 10, 11, 12, 13, 14]
          else if f = ''z.wav'' then Some []
          else None)"

definition example_wav :: wavlib where
  "example_wav =
     (\<lambda>f. if f = ''a.wav''
          then Some \<lparr>sample_rate = Some 48000, bits_per_sample = Some 16,
                     channels_hdr = Some 2, length_hdr = Some 3\<rparr>
          else None)"

text \<open>The server while it streams \<^verbatim>\<open>a.wav\<close>, and after a pause four bytes into it.\<close>

definition streaming_a :: server where
  "streaming_a = snd (play (JStr ''a.wav'') example_files example_wav True server_init)"

definition paused_a :: server where
  "paused_a = snd (pause (stream_read 4 example_files 0 streaming_a))"

text \<open>
  The same session with a sink that has stopped taking bytes, chunks of two bytes: after
  one read the chunk is counted and queued in the socket and the pipe awaits \<^verbatim>\<open>'drain'\<close>;
  after a second read the next chunk is buffered in the stream.
\<close>

definition queued_a :: server where
  "queued_a = stream_read 2 example_files 0 (sink_stalls 0 streaming_a)"

definition stalled_a :: server where
  "stalled_a = stream_read 2 example_files 0 queued_a"

section \<open>The streaming state\<close>

text \<open>
  The server streams file \<open>f\<close>: the active read stream \<open>r\<close> reads \<open>f\<close>, stands at offset
  \<open>p\<close> and is piped into the active socket \<open>k\<close>, which is connected and open;
  \<^verbatim>\<open>STATE.playing\<close> is set and \<^verbatim>\<open>STATE.bytesSent\<close> is \<open>p\<close>. The pipe flows: the stream is
  not paused and has nothing buffered, and the sink takes bytes. This is the state a play
  request that succeeds leaves behind.
\<close>

definition streaming :: "server \<Rightarrow> string \<Rightarrow> nat \<Rightarrow> nat \<Rightarrow> nat \<Rightarrow> bool" where
  "streaming srv f r k p \<longleftrightarrow>
     playing (STATE srv) \<and> bytesSent (STATE srv) = p \<and>
     activeReadStream srv = Some r \<and> activeSocket srv = Some k \<and>
     r < length (streams srv) \<and> k < length (sockets srv) \<and>
     streams srv ! r = \<lparr>rpath = f, rpos = p, rdest = Some k, rdestroyed = False,
                         rbuf = [], rawait = False\<rparr> \<and>
     sock_connected (sockets srv ! k) \<and> \<not> ended (sockets srv ! k) \<and>
     \<not> destroyed (sockets srv ! k) \<and> \<not> stalled (sockets srv ! k)"

section \<open>Lemmas on the handlers\<close>

text \<open>
  A play request for an existing file whose connection is accepted answers \<^verbatim>\<open>{ok: true}\<close>
  and leaves the server streaming that file, from the offset \<^verbatim>\<open>STATE.bytesSent\<close> had
  before the request, into a new socket that nothing has been written to yet.
\<close>

lemma play_ok_streaming:
  fixes srv :: server and wl :: wavlib and fs :: filesystem
  assumes "f \<noteq> []" and "fs f \<noteq> None"
  defines "s1 \<equiv> snd (play (JStr f) fs wl True srv)"
  shows "fst (play (JStr f) fs wl True srv) = Some Ok"
    and "streaming s1 f (length (streams srv)) (length (sockets srv)) (bytesSent (STATE srv))"
    and "written (sockets s1 ! length (sockets srv)) = []"
    and "length (sockets s1) = Suc (length (sockets srv))"
    and "length (streams s1) = Suc (length (streams srv))"
    and "j < length (sockets srv) \<Longrightarrow> written (sockets s1 ! j) = written (sockets srv ! j)"
    and "currentFile (STATE s1) = Some f"
  using assms
  by (auto simp add: streaming_def play_def play_request_def socket_connected_def
      connect_callback_def socket_end_def stream_destroy_def broadcast_def Let_def
      nth_append nth_list_update split: option.splits)

text \<open>
  One read of a streaming server. While bytes remain, the chunk is counted in
  \<^verbatim>\<open>STATE.bytesSent\<close> and written to the active socket, and the server keeps streaming.
  At the end of the file the \<^verbatim>\<open>'end'\<close> listener runs.
\<close>

lemma read_data:
  fixes s :: server and hwm :: nat and fs :: filesystem
  assumes "streaming s f r k p" and "fs f = Some c" and "p < length c" and "0 < hwm"
  defines "s' \<equiv> stream_read hwm fs r s"
  shows "streaming s' f r k (p + length (take hwm (drop p c)))"
    and "written (sockets s' ! k) = written (sockets s ! k) @ take hwm (drop p c)"
    and "length (sockets s') = length (sockets s)"
    and "length (streams s') = length (streams s)"
    and "j \<noteq> k \<Longrightarrow> sockets s' ! j = sockets s ! j"
    and "currentFile (STATE s') = currentFile (STATE s)"
  using assms
  by (auto simp add: streaming_def stream_read_def emit_data_def on_data_def socket_write_def Let_def
      nth_list_update)

lemma read_end:
  fixes s :: server and hwm :: nat and fs :: filesystem
  assumes "streaming s f r k p" and "fs f = Some c" and "length c \<le> p"
  defines "s' \<equiv> stream_read hwm fs r s"
  shows "\<not> playing (STATE s')" and "bytesSent (STATE s') = 0"
    and "activeReadStream s' = None" and "activeSocket s' = None"
    and "rdestroyed (streams s' ! r)" and "destroyed (sockets s' ! k)"
    and "written (sockets s' ! j) = written (sockets s ! j)"
    and "length (sockets s') = length (sockets s)"
    and "length (streams s') = length (streams s)"
    and "sent s' = sent s @ [Status False]"
    and "currentFile (STATE s') = currentFile (STATE s)"
  using assms
  by (auto simp add: streaming_def stream_read_def on_end_def cleanupStream_def
      stream_destroy_def socket_destroy_def broadcast_def Let_def nth_list_update)

text \<open>
  A destroyed stream reads no more, however often it is asked.
\<close>

lemma read_destroyed:
  "r < length (streams s) \<Longrightarrow> rdestroyed (streams s ! r) \<Longrightarrow> stream_read hwm fs r s = s"
  by (simp add: stream_read_def)

lemma reads_destroyed:
  "r < length (streams s) \<Longrightarrow> rdestroyed (streams s ! r) \<Longrightarrow> (stream_read hwm fs r ^^ n) s = s"
  by (induction n) (simp_all add: read_destroyed)

text \<open>
  More reads than bytes remain reach the end of the file: the socket has then been
  written all the bytes from the offset on, and the \<^verbatim>\<open>'end'\<close> listener has run.
\<close>

lemma reads_drain:
  fixes s :: server and hwm :: nat and fs :: filesystem
  assumes c: "fs f = Some c" and hwm: "0 < hwm"
  shows "streaming s f r k p \<Longrightarrow> length c - p < m \<Longrightarrow>
    \<not> playing (STATE ((stream_read hwm fs r ^^ m) s)) \<and>
    bytesSent (STATE ((stream_read hwm fs r ^^ m) s)) = 0 \<and>
    written (sockets ((stream_read hwm fs r ^^ m) s) ! k) = written (sockets s ! k) @ drop p c \<and>
    (\<forall>j. j \<noteq> k \<longrightarrow> written (sockets ((stream_read hwm fs r ^^ m) s) ! j) = written (sockets s ! j)) \<and>
    currentFile (STATE ((stream_read hwm fs r ^^ m) s)) = currentFile (STATE s) \<and>
    activeReadStream ((stream_read hwm fs r ^^ m) s) = None \<and>
    activeSocket ((stream_read hwm fs r ^^ m) s) = None \<and>
    rdestroyed (streams ((stream_read hwm fs r ^^ m) s) ! r) \<and>
    destroyed (sockets ((stream_read hwm fs r ^^ m) s) ! k) \<and>
    last (sent ((stream_read hwm fs r ^^ m) s)) = Status False"
proof (induction m arbitrary: s p)
  case 0
  then show ?case by simp
next
  case (Suc m)
  let ?s1 = "stream_read hwm fs r s"
  have step: "(stream_read hwm fs r ^^ Suc m) s = (stream_read hwm fs r ^^ m) ?s1"
    by (simp add: funpow_swap1)
  show ?case
  proof (cases "p < length c")
    case True
    let ?ch = "take hwm (drop p c)"
    let ?p1 = "p + length ?ch"
    note rd = read_data [where fs = fs and f = f, OF Suc.prems(1) c True hwm]
    have "0 < length ?ch" using True hwm by simp
    then have "length c - ?p1 < m" using Suc.prems(2) True by arith
    from Suc.IH [OF rd(1) this]
    have ih: "\<not> playing (STATE ((stream_read hwm fs r ^^ m) ?s1))"
      "bytesSent (STATE ((stream_read hwm fs r ^^ m) ?s1)) = 0"
      "written (sockets ((stream_read hwm fs r ^^ m) ?s1) ! k) = written (sockets ?s1 ! k) @ drop ?p1 c"
      "\<forall>j. j \<noteq> k \<longrightarrow> written (sockets ((stream_read hwm fs r ^^ m) ?s1) ! j) = written (sockets ?s1 ! j)"
      "currentFile (STATE ((stream_read hwm fs r ^^ m) ?s1)) = currentFile (STATE ?s1)"
      "activeReadStream ((stream_read hwm fs r ^^ m) ?s1) = None"
      "activeSocket ((stream_read hwm fs r ^^ m) ?s1) = None"
      "rdestroyed (streams ((stream_read hwm fs r ^^ m) ?s1) ! r)"
      "destroyed (sockets ((stream_read hwm fs r ^^ m) ?s1) ! k)"
      "last (sent ((stream_read hwm fs r ^^ m) ?s1)) = Status False"
      by blast+
    have "?ch @ drop ?p1 c = drop p c"
    proof -
      have "drop ?p1 c = drop (length ?ch) (drop p c)" by (simp add: add.commute)
      moreover have "?ch = take (length ?ch) (drop p c)" by (simp add: min_def)
      ultimately show ?thesis by (metis append_take_drop_id)
    qed
    with ih rd(2) rd(5) rd(6) show ?thesis unfolding step by simp
  next
    case False
    then have le: "length c \<le> p" by simp
    note re = read_end [where fs = fs and f = f and hwm = hwm, OF Suc.prems(1) c le]
    have "r < length (streams ?s1)"
      using re(9) Suc.prems(1) by (simp add: streaming_def)
    then have "(stream_read hwm fs r ^^ m) ?s1 = ?s1"
      using re(5) by (rule reads_destroyed)
    with re le show ?thesis unfolding step by simp
  qed
qed

text \<open>
  What the pause handler has done when it returns, on every state of the server: it
  answers \<^verbatim>\<open>{ok: true}\<close>, \<^verbatim>\<open>playing\<close> is false, the other fields of \<^verbatim>\<open>STATE\<close> are as they
  were, and no socket or read stream is active; with \<^verbatim>\<open>playing\<close> false before, \<^verbatim>\<open>STATE\<close>
  is unchanged.
\<close>

lemma pause_handler_frame:
  "fst (pause srv) = Ok \<and>
   \<not> playing (STATE (snd (pause srv))) \<and>
   bytesSent (STATE (snd (pause srv))) = bytesSent (STATE srv) \<and>
   currentFile (STATE (snd (pause srv))) = currentFile (STATE srv) \<and>
   durationSec (STATE (snd (pause srv))) = durationSec (STATE srv) \<and>
   byteRate (STATE (snd (pause srv))) = byteRate (STATE srv) \<and>
   activeReadStream (snd (pause srv)) = None \<and>
   activeSocket (snd (pause srv)) = None \<and>
   (\<not> playing (STATE srv) \<longrightarrow> STATE (snd (pause srv)) = STATE srv)"
  by (auto simp add: pause_def cleanupStream_def socket_end_def stream_destroy_def
      socket_destroy_def broadcast_def Let_def split: option.splits)

text \<open>
  The \<^verbatim>\<open>'end'\<close> listener, on every state of the server: \<^verbatim>\<open>playing\<close> is false and
  \<^verbatim>\<open>bytesSent\<close> is 0, the other fields of \<^verbatim>\<open>STATE\<close> are as they were, no socket or read
  stream is active, and one message is broadcast, which names no file.
\<close>

lemma on_end_effect:
  "\<not> playing (STATE (on_end srv)) \<and> bytesSent (STATE (on_end srv)) = 0 \<and>
   currentFile (STATE (on_end srv)) = currentFile (STATE srv) \<and>
   durationSec (STATE (on_end srv)) = durationSec (STATE srv) \<and>
   byteRate (STATE (on_end srv)) = byteRate (STATE srv) \<and>
   activeReadStream (on_end srv) = None \<and> activeSocket (on_end srv) = None \<and>
   sent (on_end srv) = sent srv @ [Status False]"
  by (auto simp add: on_end_def cleanupStream_def stream_destroy_def socket_destroy_def
      broadcast_def Let_def split: option.splits)

section \<open>The claims\<close>

text \<open>
  Claim C1: a play request for a file other than \<^verbatim>\<open>currentFile\<close> resets the byte offset
  to 0 before streaming begins. The handler never compares \<^verbatim>\<open>fileId\<close> with
  \<^verbatim>\<open>STATE.currentFile\<close> and never assigns \<^verbatim>\<open>STATE.bytesSent\<close>: after a pause four
  bytes into \<^verbatim>\<open>a.wav\<close>, a play of \<^verbatim>\<open>b.wav\<close> succeeds, keeps the offset 4, opens
  \<^verbatim>\<open>b.wav\<close> at offset 4 and sends only its last four bytes before it completes.
\<close>

theorem play_other_file_keeps_offset:
  "bytesSent (STATE paused_a) = 4 \<and> currentFile (STATE paused_a) = Some ''a.wav'' \<and>
   fst (play (JStr ''b.wav'') example_files example_wav True paused_a) = Some Ok \<and>
   bytesSent (STATE (snd (play (JStr ''b.wav'') example_files example_wav True paused_a))) = 4 \<and>
   streams (snd (play (JStr ''b.wav'') example_files example_wav True paused_a)) ! 1
     = \<lparr>rpath = ''b.wav'', rpos = 4, rdest = Some 1, rdestroyed = False,
        rbuf = [], rawait = False\<rparr> \<and>
   written (sockets (stream_read 4 example_files 1 (stream_read 4 example_files 1
      (snd (play (JStr ''b.wav'') example_files example_wav True paused_a)))) ! 1)
     = [11, 12, 13, 14] \<and>
   \<not> playing (STATE (stream_read 4 example_files 1 (stream_read 4 example_files 1
      (snd (play (JStr ''b.wav'') example_files example_wav True paused_a)))))"
  by code_simp




text \<open>
  Claim C3: a new session tears the prior connection and read stream down fully before
  it begins, so that two outbound connections never coexist. The play handler destroys the
  prior read stream, but it only calls \<^verbatim>\<open>end()\<close> on the prior socket (line 144) where
  \<^verbatim>\<open>cleanupStream\<close> and the pause handler call \<^verbatim>\<open>destroy()\<close>: while \<^verbatim>\<open>a.wav\<close> streams,
  a play of \<^verbatim>\<open>b.wav\<close> leaves two connected sockets, neither destroyed, where a pause
  leaves the socket destroyed. The first socket is still live: when it closes later, its
  \<^verbatim>\<open>'close'\<close> listener destroys the socket and the read stream of the new session, and
  \<^verbatim>\<open>STATE.playing\<close> stays set.
\<close>

theorem play_while_streaming_two_sockets:
  "streaming streaming_a ''a.wav'' 0 0 0 \<and>
   fst (play (JStr ''b.wav'') example_files example_wav True streaming_a) = Some Ok \<and>
   sockets (snd (play (JStr ''b.wav'') example_files example_wav True streaming_a))
     = [\<lparr>sock_connected = True, ended = True, destroyed = False,
         written = [], queued = [], stalled = False\<rparr>,
        \<lparr>sock_connected = True, ended = False, destroyed = False,
         written = [], queued = [], stalled = False\<rparr>] \<and>
   length (filter (\<lambda>s. \<not> destroyed s)
     (sockets (snd (play (JStr ''b.wav'') example_files example_wav True streaming_a)))) = 2 \<and>
   sockets (snd (pause streaming_a))
     = [\<lparr>sock_connected = True, ended = True, destroyed = True,
         written = [], queued = [], stalled = False\<rparr>] \<and>
   destroyed (sockets (socket_closed 0
     (snd (play (JStr ''b.wav'') example_files example_wav True streaming_a))) ! 1) \<and>
   rdestroyed (streams (socket_closed 0
     (snd (play (JStr ''b.wav'') example_files example_wav True streaming_a))) ! 1) \<and>
   playing (STATE (socket_closed 0
     (snd (play (JStr ''b.wav'') example_files example_wav True streaming_a))))"
  by code_simp

text \<open>
  Claim C4, as stated: at the end of the file the engine publishes a status event that
  still names the completed file. For the empty file \<^verbatim>\<open>z.wav\<close> the first read is the end
  of the file, and the message broadcast is \<^verbatim>\<open>{type: 'status', playing: false}\<close> (line
  180), which names no file.
\<close>

theorem end_event_counterexample:
  "streaming (snd (play (JStr ''z.wav'') example_files example_wav True server_init))
     ''z.wav'' 0 0 0 \<and>
   last (sent (stream_read 4 example_files 0
      (snd (play (JStr ''z.wav'') example_files example_wav True server_init)))) = Status False \<and>
   msg_file (last (sent (stream_read 4 example_files 0
      (snd (play (JStr ''z.wav'') example_files example_wav True server_init)))))
     \<noteq> Some ''z.wav''"
  by code_simp

text \<open>
  Claim C4, amended: while the server streams a file, of any size, the reads reach its end
  (in at most one read more than bytes remain; at the first read when none remain, as for
  an empty file). Then \<^verbatim>\<open>playing\<close> is false and \<^verbatim>\<open>bytesSent\<close> is 0, the read stream and
  the socket are destroyed and none is active, and the status message broadcast carries
  \<^verbatim>\<open>playing: false\<close> and names no file; the completed file stays in
  \<^verbatim>\<open>STATE.currentFile\<close>, so the status query still reports it.
\<close>

theorem natural_completion:
  fixes srv :: server and fs :: filesystem and hwm m :: nat
  shows "streaming srv f r k p \<Longrightarrow> fs f = Some c \<Longrightarrow> 0 < hwm \<Longrightarrow> length c - p < m \<Longrightarrow>
   \<not> playing (STATE ((stream_read hwm fs r ^^ m) srv)) \<and>
   bytesSent (STATE ((stream_read hwm fs r ^^ m) srv)) = 0 \<and>
   currentFile (STATE ((stream_read hwm fs r ^^ m) srv)) = currentFile (STATE srv) \<and>
   activeReadStream ((stream_read hwm fs r ^^ m) srv) = None \<and>
   activeSocket ((stream_read hwm fs r ^^ m) srv) = None \<and>
   rdestroyed (streams ((stream_read hwm fs r ^^ m) srv) ! r) \<and>
   destroyed (sockets ((stream_read hwm fs r ^^ m) srv) ! k) \<and>
   last (sent ((stream_read hwm fs r ^^ m) srv)) = Status False \<and>
   msg_file (last (sent ((stream_read hwm fs r ^^ m) srv))) = None \<and>
   currentFileId (stream_status ((stream_read hwm fs r ^^ m) srv)) = currentFile (STATE srv)"
proof -
  assume st: "streaming srv f r k p" and c: "fs f = Some c" and hwm: "0 < hwm"
    and m: "length c - p < m"
  from reads_drain [where fs = fs and f = f, OF c hwm st m]
  show ?thesis by (simp add: msg_file_def stream_status_def)
qed

text \<open>
  Claim C4, amended, at the empty file \<^verbatim>\<open>z.wav\<close>: it completes at the first read.
\<close>

theorem natural_completion_witness:
  "streaming (snd (play (JStr ''z.wav'') example_files example_wav True server_init))
     ''z.wav'' 0 0 0 \<and>
   example_files ''z.wav'' = Some [] \<and> (0::nat) < 4 \<and> length ([] :: byte list) - 0 < (1::nat) \<and>
   \<not> playing (STATE ((stream_read 4 example_files 0 ^^ 1)
       (snd (play (JStr ''z.wav'') example_files example_wav True server_init)))) \<and>
   bytesSent (STATE ((stream_read 4 example_files 0 ^^ 1)
       (snd (play (JStr ''z.wav'') example_files example_wav True server_init)))) = 0 \<and>
   currentFileId (stream_status ((stream_read 4 example_files 0 ^^ 1)
       (snd (play (JStr ''z.wav'') example_files example_wav True server_init)))) = Some ''z.wav''"
proof -
  have st: "streaming (snd (play (JStr ''z.wav'') example_files example_wav True server_init))
     ''z.wav'' 0 0 0"
    by code_simp
  have a: "example_files ''z.wav'' = Some []" "(0::nat) < 4" "length ([] :: byte list) - 0 < (1::nat)"
    by (simp_all add: example_files_def)
  have cf: "currentFile (STATE (snd (play (JStr ''z.wav'') example_files example_wav True server_init)))
     = Some ''z.wav''"
    by code_simp
  from natural_completion [where fs = example_files and f = "''z.wav''", OF st a] st a cf
  show ?thesis by simp
qed

text \<open>
  Claim C5: a pause while streaming stops the byte copy and leaves the byte offset
  exactly unchanged. The pause handler leaves \<^verbatim>\<open>STATE.bytesSent\<close> as it was when it
  returns, but it does not remove the \<^verbatim>\<open>'data'\<close> listener of line 172, and a chunk that the
  read stream has buffered while the pipe awaited \<^verbatim>\<open>'drain'\<close> is emitted after the pause:
  \<^verbatim>\<open>a.wav\<close> streams to a stalled sink, two bytes are counted and queued and two more are
  buffered; the pause answers \<^verbatim>\<open>{ok: true}\<close> with \<^verbatim>\<open>bytesSent\<close> 2 and destroys the stream
  and the socket; when the socket closes, the pipe resumes the destroyed stream, the
  buffered chunk reaches the listener, and \<^verbatim>\<open>bytesSent\<close> is 4, with \<^verbatim>\<open>playing\<close> false and
  not one byte sent to the sink.
\<close>

theorem pause_then_buffered_chunk_counted:
  "playing (STATE stalled_a) \<and> bytesSent (STATE stalled_a) = 2 \<and>
   activeReadStream stalled_a = Some 0 \<and> activeSocket stalled_a = Some 0 \<and>
   streams stalled_a ! 0
     = \<lparr>rpath = ''a.wav'', rpos = 4, rdest = Some 0, rdestroyed = False,
        rbuf = [[3, 4]], rawait = True\<rparr> \<and>
   queued (sockets stalled_a ! 0) = [1, 2] \<and>
   fst (pause stalled_a) = Ok \<and>
   \<not> playing (STATE (snd (pause stalled_a))) \<and>
   bytesSent (STATE (snd (pause stalled_a))) = 2 \<and>
   rdestroyed (streams (snd (pause stalled_a)) ! 0) \<and>
   destroyed (sockets (snd (pause stalled_a)) ! 0) \<and>
   bytesSent (STATE (stream_flow 0 (socket_closed 0 (snd (pause stalled_a))))) = 4 \<and>
   \<not> playing (STATE (stream_flow 0 (socket_closed 0 (snd (pause stalled_a))))) \<and>
   written (sockets (stream_flow 0 (socket_closed 0 (snd (pause stalled_a)))) ! 0) = []"
  by code_simp

text \<open>
  Claim C6: after a pause, a play of the same file opens it exactly at the byte offset,
  so that no byte is skipped or sent twice and the sink receives the whole file. The file
  is opened at \<^verbatim>\<open>STATE.bytesSent\<close>, but that counter counts what has been read (line 173),
  not what has been sent, and the pause destroys the socket with what is queued in it
  (lines 205 and 216): \<^verbatim>\<open>a.wav\<close> streams to a stalled sink and its first two bytes are
  counted and queued; the pause keeps \<^verbatim>\<open>bytesSent\<close> at 2 and discards the queue; the
  second play succeeds and opens the file at offset 2; read to its end, the file has
  reached the sink as the four bytes 3 to 6 on the second connection and nothing on the
  first, and bytes 1 and 2 were never sent.
\<close>

theorem resume_skips_queued_bytes:
  "example_files ''a.wav'' = Some [1, 2, 3, 4, 5, 6] \<and>
   playing (STATE queued_a) \<and> bytesSent (STATE queued_a) = 2 \<and>
   queued (sockets queued_a ! 0) = [1, 2] \<and> written (sockets queued_a ! 0) = [] \<and>
   bytesSent (STATE (snd (pause queued_a))) = 2 \<and>
   fst (play (JStr ''a.wav'') example_files example_wav True (snd (pause queued_a))) = Some Ok \<and>
   streams (snd (play (JStr ''a.wav'') example_files example_wav True (snd (pause queued_a)))) ! 1
     = \<lparr>rpath = ''a.wav'', rpos = 2, rdest = Some 1, rdestroyed = False,
        rbuf = [], rawait = False\<rparr> \<and>
   map written (sockets (stream_read 2 example_files 1 (stream_read 2 example_files 1
     (stream_read 2 example_files 1
       (snd (play (JStr ''a.wav'') example_files example_wav True (snd (pause queued_a)))))))) 
     = [[], [3, 4, 5, 6]] \<and>
   map queued (sockets (stream_read 2 example_files 1 (stream_read 2 example_files 1
     (stream_read 2 example_files 1
       (snd (play (JStr ''a.wav'') example_files example_wav True (snd (pause queued_a)))))))) 
     = [[], []] \<and>
   \<not> playing (STATE (stream_read 2 example_files 1 (stream_read 2 example_files 1
     (stream_read 2 example_files 1
       (snd (play (JStr ''a.wav'') example_files example_wav True (snd (pause queued_a))))))))"
  by code_simp

text \<open>
  Claim C7: the status query returns \<^verbatim>\<open>playing\<close>, the current file, the duration, and
  as position \<open>\<lfloor>bytesSent / byteRate\<rfloor>\<close> when \<^verbatim>\<open>byteRate\<close> is nonzero, 0 otherwise.
\<close>

theorem stream_status_snapshot:
  "playing_out (stream_status srv) = playing (STATE srv) \<and>
   currentFileId (stream_status srv) = currentFile (STATE srv) \<and>
   position (stream_status srv) =
     (if byteRate (STATE srv) \<noteq> 0
      then \<lfloor>of_nat (bytesSent (STATE srv)) / byteRate (STATE srv)\<rfloor> else 0) \<and>
   duration_out (stream_status srv) = durationSec (STATE srv)"
  by (simp add: stream_status_def or_num_def)

text \<open>
  Claim C8: a play request for a file id that names no uploaded file is answered 404
  \<^verbatim>\<open>file not found\<close>, and nothing of the server has changed.
\<close>

theorem play_not_found:
  "f \<noteq> [] \<Longrightarrow> fs f = None \<Longrightarrow>
   play (JStr f) fs wl accepts srv = (Some (Error 404 ''file not found''), srv)"
  by (simp add: play_def play_request_def)

text \<open>
  Claim C8 at \<^verbatim>\<open>missing.wav\<close>, on the paused server.
\<close>

theorem play_not_found_witness:
  "''missing.wav'' \<noteq> [] \<and> example_files ''missing.wav'' = None \<and>
   play (JStr ''missing.wav'') example_files example_wav True paused_a
     = (Some (Error 404 ''file not found''), paused_a)"
  using play_not_found [of "''missing.wav''" example_files example_wav True paused_a]
  by (simp add: example_files_def)

text \<open>
  Claim C9: when the inspector fails for an existing file, \<^verbatim>\<open>durationSec\<close> and
  \<^verbatim>\<open>byteRate\<close> keep their prior values whether or not the sink accepts the connection,
  and the request goes on: where the sink accepts, it is answered \<^verbatim>\<open>{ok: true}\<close> and
  the server streams the file.
\<close>

theorem play_inspector_failure:
  "f \<noteq> [] \<Longrightarrow> fs f \<noteq> None \<Longrightarrow> inspectWav (wl f) = None \<Longrightarrow>
   durationSec (STATE (snd (play (JStr f) fs wl accepts srv))) = durationSec (STATE srv) \<and>
   byteRate (STATE (snd (play (JStr f) fs wl accepts srv))) = byteRate (STATE srv) \<and>
   fst (play (JStr f) fs wl True srv) = Some Ok \<and>
   streaming (snd (play (JStr f) fs wl True srv)) f
     (length (streams srv)) (length (sockets srv)) (bytesSent (STATE srv))"
  using play_ok_streaming(1,2) [where fs = fs and f = f and wl = wl and srv = srv]
  by (auto simp add: play_def play_request_def socket_connected_def connect_callback_def
      connect_failed_def on_socket_error_def on_socket_close_def cleanupStream_def
      socket_destroy_def socket_end_def stream_destroy_def broadcast_def or_num_def Let_def
      split: option.splits)

text \<open>
  Claim C9 at \<^verbatim>\<open>b.wav\<close>, which the WAV library cannot read, after a session of
  \<^verbatim>\<open>a.wav\<close> that set the byte rate.
\<close>

theorem play_inspector_failure_witness:
  "''b.wav'' \<noteq> [] \<and> example_files ''b.wav'' \<noteq> None \<and> inspectWav (example_wav ''b.wav'') = None \<and>
   byteRate (STATE paused_a) = 192000 \<and>
   byteRate (STATE (snd (play (JStr ''b.wav'') example_files example_wav True paused_a))) = 192000 \<and>
   fst (play (JStr ''b.wav'') example_files example_wav True paused_a) = Some Ok"
proof -
  have a: "''b.wav'' \<noteq> []" "example_files ''b.wav'' \<noteq> None"
    "inspectWav (example_wav ''b.wav'') = None"
    by (simp_all add: example_files_def example_wav_def inspectWav_def)
  have b: "byteRate (STATE paused_a) = 192000" by code_simp
  from play_inspector_failure [where fs = example_files and wl = example_wav and srv = paused_a
      and accepts = True, OF a] a b
  show ?thesis by simp
qed

text \<open>
  Claim C10: a play request whose \<^verbatim>\<open>fileId\<close> is absent, null or empty is answered 400
  \<^verbatim>\<open>fileId required\<close> whatever the files, the inspector and the sink are, and nothing of
  the server has changed: neither \<^verbatim>\<open>STATE\<close> nor the active socket and read stream.
\<close>

theorem play_requires_fileId:
  "\<not> truthy fileId \<Longrightarrow>
   play fileId fs wl accepts srv = (Some (Error 400 ''fileId required''), srv)"
  by (simp add: play_def play_request_def)

text \<open>
  Claim C10 at an empty and at an absent \<^verbatim>\<open>fileId\<close>, while \<^verbatim>\<open>a.wav\<close> streams.
\<close>

theorem play_requires_fileId_witness:
  "\<not> truthy (JStr []) \<and> \<not> truthy JUndefined \<and>
   play (JStr []) example_files example_wav True streaming_a
     = (Some (Error 400 ''fileId required''), streaming_a) \<and>
   play JUndefined example_files example_wav True streaming_a
     = (Some (Error 400 ''fileId required''), streaming_a)"
  using play_requires_fileId [of "JStr []" example_files example_wav True streaming_a]
    play_requires_fileId [of JUndefined example_files example_wav True streaming_a]
  by simp

end
